theory Spec2Isabelle
  imports Complex_Main "HOL-Library.Word"
begin

section \<open>The vehicle object (class UAS)\<close>

text \<open>
  The development embeds the message-driven core of the class \<open>UAS\<close>: the periodic
  connection check \<open>updateState\<close>, the dispatcher \<open>receiveMessage\<close> with the cases of
  its switch that the properties below are about, the time reconciliation functions
  \<open>getUnixReferenceTime\<close>, \<open>getUnixTimeFromMs\<close>, \<open>getUnixTime\<close> and the battery
  filter \<open>filterVoltage\<close>.

  Conventions. A \<open>quint64\<close> is a 64-bit word: subtraction and addition wrap around and
  the order is the unsigned one. An \<open>int\<close> member is a HOL integer (no computation on
  such a member leaves the 32-bit range for the inputs a message can carry). A \<open>float\<close>
  or \<open>double\<close> is a real number: rounding, NaN and infinities are outside the model.
  A member function that changes the object takes the object and returns the new one
  together with the list of notifications it emitted, in the order of emission.
\<close>

type_synonym quint64 = "64 word"

subsection \<open>Members\<close>

text \<open>
  The members of \<open>UAS\<close> that the embedded functions read or write.
  \<open>components\<close> is the \<open>QMap\<close> from component id to name, \<open>componentID\<close> and
  \<open>componentMulti\<close> are the two arrays indexed by the 8-bit message id,
  \<open>unknownPackets\<close> is the \<open>QList\<close> of message ids and \<open>imageRecBuffer\<close> the
  \<open>QByteArray\<close> of the image transfer.
\<close>

record uas =
  uasId :: int
  components :: "int \<rightharpoonup> string"
  componentID :: "8 word \<Rightarrow> int"
  componentMulti :: "8 word \<Rightarrow> bool"
  unknownPackets :: "int list"
  type :: int
  airframe :: int
  autopilot :: int
  base_mode :: "8 word"
  custom_mode :: "32 word"
  status :: int
  startVoltage :: real
  tickVoltage :: real
  lastTickVoltageValue :: real
  tickLowpassVoltage :: real
  warnLevelPercent :: real
  currentVoltage :: real
  lpVoltage :: real
  currentCurrent :: real
  chargeLevel :: int
  lowBattAlarm :: bool
  onboardTimeOffset :: quint64
  attitudeKnown :: bool
  attitudeStamped :: bool
  lastAttitude :: quint64
  roll :: real
  pitch :: real
  yaw :: real
  imageSize :: int
  imagePackets :: int
  imagePacketsArrived :: int
  imagePayload :: int
  imageQuality :: int
  imageType :: int
  imageWidth :: int
  imageHeight :: int
  imageStart :: quint64
  imageRecBuffer :: "8 word list"
  receivedMode :: bool
  connectionLost :: bool
  positionLock :: bool
  lastVoltageWarning :: quint64
  lastNonNullTime :: quint64
  lastHeartbeat :: quint64
  connectionLossTime :: quint64

text \<open>
  The object the constructor builds for vehicle \<open>vid\<close>: the values of its initialiser
  list and of its loop over the two arrays. The autopilot, which the constructor takes
  from the vehicle, and the members the constructor does not mention are given zero
  (an empty map, list or buffer); no theorem below depends on them except through an
  explicit example.
\<close>

definition UAS :: "int \<Rightarrow> uas" where
  "UAS vid =
    \<lparr> uasId = vid,
      components = Map.empty,
      componentID = (\<lambda>i. - 1),
      componentMulti = (\<lambda>i. False),
      unknownPackets = [],
      type = 0,
      airframe = 0,
      autopilot = 0,
      base_mode = 0,
      custom_mode = 0,
      status = - 1,
      startVoltage = - 1,
      tickVoltage = 10.5,
      lastTickVoltageValue = 13,
      tickLowpassVoltage = 12,
      warnLevelPercent = 20,
      currentVoltage = 12.6,
      lpVoltage = - 1,
      currentCurrent = 0.4,
      chargeLevel = - 1,
      lowBattAlarm = False,
      onboardTimeOffset = 0,
      attitudeKnown = False,
      attitudeStamped = False,
      lastAttitude = 0,
      roll = 0,
      pitch = 0,
      yaw = 0,
      imageSize = 0,
      imagePackets = 0,
      imagePacketsArrived = 0,
      imagePayload = 0,
      imageQuality = 0,
      imageType = 0,
      imageWidth = 0,
      imageHeight = 0,
      imageStart = 0,
      imageRecBuffer = [],
      receivedMode = False,
      connectionLost = False,
      positionLock = False,
      lastVoltageWarning = 0,
      lastNonNullTime = 0,
      lastHeartbeat = 0,
      connectionLossTime = 0 \<rparr>"

subsection \<open>Notifications\<close>

text \<open>
  What \<open>_say\<close> is asked to speak. The text itself is built with \<open>QString::arg\<close> and
  \<open>toLower\<close>; the model keeps which sentence it is and the values put into it.
\<close>

datatype utterance =
    Link_lost_to_system int
  | Link_regained_to_system int
  | Low_battery_system_volts int real
  | System_has_low_battery int
  | Emergency_for_system int
  | System_announcement int string

datatype audio_severity =
    AUDIO_SEVERITY_DEFAULT
  | AUDIO_SEVERITY_EMERGENCY
  | AUDIO_SEVERITY_ALERT
  | AUDIO_SEVERITY_NOTICE

text \<open>
  The name of a plotted value: \<open>M<sysid>:<GROUP>.<field>\<close> or a plain name.
\<close>

datatype plot_name = Field "8 word" string string | Name string

text \<open>
  The signals of the embedded functions, one constructor per signal, and \<open>say\<close> for a
  call of \<open>_say\<close>. A plotted value is \<open>valueChanged id name unit value time\<close>.
  \<open>startEmergency\<close> stands for the single-shot timer that starts the emergency
  sound. \<open>textMessageReceived id component severity text command\<close> carries the text
  and the number put into it.
\<close>

datatype signal =
    say utterance audio_severity
  | heartbeatTimeout bool quint64
  | heartbeat
  | valueChanged int plot_name string real quint64
  | statusChanged_text string string
  | statusChanged int
  | systemSpecsChanged int
  | systemTypeSet int
  | startEmergency
  | batteryConsumedChanged real
  | loadChanged real
  | batteryChanged real real real int
  | attitudeControlEnabled bool
  | positionYawControlEnabled bool
  | positionZControlEnabled bool
  | positionXYControlEnabled bool
  | dropRateChanged int real
  | attitudeChanged_component int real real real quint64
  | attitudeChanged real real real quint64
  | attitudeRotationRatesChanged int real real real quint64
  | textMessageReceived int int int string int
  | attitudeThrustSetPointChanged real real real real quint64
  | positionSetPointsChanged int real real real real quint64
  | imageReady

subsection \<open>Collaborators\<close>

text \<open>
  What a member function reads from outside the sources at hand, each a parameter: the
  ground clock (one reading per call, in microseconds and in milliseconds), the
  heartbeat timeout and the airframe enumerators of the interface header with its
  \<open>setAirframe\<close> (it gives the new value of the member \<open>airframe\<close>, the only
  member it is taken to change, and what it emits), the angle normalisation of the \<open>QGC\<close> namespace, the quaternion
  helper and the end of the vehicle-type enumeration of the MAVLink library, and the
  flight-mode name of the firmware plug-in (for autopilot, type, base mode and custom
  mode).
\<close>

record environment =
  groundTimeUsecs :: quint64
  groundTimeMilliseconds :: quint64
  timeoutIntervalHeartbeat :: quint64
  limitAngleToPMPIf :: "real \<Rightarrow> real"
  mavlink_quaternion_to_euler :: "real \<times> real \<times> real \<times> real \<Rightarrow> real \<times> real \<times> real"
  flightMode :: "8 word \<Rightarrow> 8 word \<Rightarrow> 8 word \<Rightarrow> 32 word \<Rightarrow> string"
  MAV_TYPE_ENUM_END :: int
  QGC_AIRFRAME_EASYSTAR :: int
  QGC_AIRFRAME_CHEETAH :: int
  QGC_AIRFRAME_HEXCOPTER :: int
  setAirframe :: "int \<Rightarrow> uas \<Rightarrow> int \<times> signal list"

text \<open>
  An environment for the examples: the clock reads \<open>usecs\<close> microseconds, the
  heartbeat times out after \<open>timeout\<close> microseconds, angles are left as they are and
  \<open>setAirframe\<close> stores the airframe and emits nothing.
\<close>

definition environment_at :: "quint64 \<Rightarrow> quint64 \<Rightarrow> environment" where
  "environment_at usecs timeout =
    \<lparr> groundTimeUsecs = usecs,
      groundTimeMilliseconds = usecs div 1000,
      timeoutIntervalHeartbeat = timeout,
      limitAngleToPMPIf = (\<lambda>angle. angle),
      mavlink_quaternion_to_euler = (\<lambda>q. (0, 0, 0)),
      flightMode = (\<lambda>autopilot type base custom. []),
      MAV_TYPE_ENUM_END = 28,
      QGC_AIRFRAME_EASYSTAR = 1,
      QGC_AIRFRAME_CHEETAH = 2,
      QGC_AIRFRAME_HEXCOPTER = 3,
      setAirframe = (\<lambda>a s. (a, [])) \<rparr>"

section \<open>Time reconciliation\<close>

text \<open>
  \<open>getUnixReferenceTime\<close>: the ground clock for a zero time stamp, the time stamp in
  milliseconds plus the onboard offset below forty years of microseconds (the offset is
  taken from the ground clock while it is zero), the time stamp in milliseconds
  otherwise.
\<close>

definition getUnixReferenceTime :: "environment \<Rightarrow> quint64 \<Rightarrow> uas \<Rightarrow> quint64 \<times> uas" where
  "getUnixReferenceTime env time s =
    (if time = 0 then (groundTimeMilliseconds env, s)
     else if time < 1261440000000000 then
       (let s1 = (if onboardTimeOffset s = 0
                  then s\<lparr>onboardTimeOffset := groundTimeMilliseconds env - time div 1000\<rparr>
                  else s)
        in (time div 1000 + onboardTimeOffset s1, s1))
     else (time div 1000, s))"

text \<open>
  \<open>getUnixTime\<close>. The local \<open>ret\<close> starts at zero and is set to \<open>lastAttitude\<close> when
  \<open>attitudeStamped\<close> is on; each of the three branches that follow assigns \<open>ret\<close>
  again, and \<open>ret\<close> is returned. The model threads \<open>ret\<close> through in the same way.
\<close>

definition getUnixTime :: "environment \<Rightarrow> quint64 \<Rightarrow> uas \<Rightarrow> quint64 \<times> uas" where
  "getUnixTime env time s =
    (let ret0 = (0 :: quint64);
         ret1 = (if attitudeStamped s then lastAttitude s else ret0)
     in
       if time = 0 then
         (let ret2 = groundTimeMilliseconds env in (ret2, s))
       else if time < 1261440000000000 then
         (let s1 = (if onboardTimeOffset s = 0 \<or> time < lastNonNullTime s - 100
                    then s\<lparr>lastNonNullTime := time,
                           onboardTimeOffset := groundTimeMilliseconds env - time div 1000\<rparr>
                    else s);
              s2 = (if time > lastNonNullTime s1 then s1\<lparr>lastNonNullTime := time\<rparr> else s1);
              ret2 = time div 1000 + onboardTimeOffset s2
          in (ret2, s2))
       else
         (let ret2 = time div 1000 in (ret2, s)))"

definition getUnixTimeFromMs :: "environment \<Rightarrow> quint64 \<Rightarrow> uas \<Rightarrow> quint64 \<times> uas" where
  "getUnixTimeFromMs env time s = getUnixTime env (time * 1000) s"


section \<open>The periodic connection check\<close>

text \<open>
  \<open>updateState\<close> runs on the status timer. Its three conditionals are evaluated one
  after the other on the object as the previous one left it; the last statement clears
  \<open>positionLock\<close>.
\<close>

definition updateState :: "environment \<Rightarrow> uas \<Rightarrow> uas \<times> signal list" where
  "updateState env s =
    (let heartbeatInterval = groundTimeUsecs env - lastHeartbeat s;
         (s1, out1) =
           (if \<not> connectionLost s \<and> heartbeatInterval > timeoutIntervalHeartbeat env
            then (s\<lparr>connectionLost := True, receivedMode := False\<rparr>,
                  [say (Link_lost_to_system (uasId s)) AUDIO_SEVERITY_ALERT])
            else (s, []));
         (s2, out2) =
           (if connectionLost s1 \<and> heartbeatInterval > timeoutIntervalHeartbeat env
            then (s1\<lparr>connectionLossTime := heartbeatInterval\<rparr>,
                  [heartbeatTimeout True (heartbeatInterval div 1000)])
            else (s1, []));
         (s3, out3) =
           (if connectionLost s2 \<and> heartbeatInterval < timeoutIntervalHeartbeat env
            then (s2\<lparr>connectionLost := False, connectionLossTime := 0\<rparr>,
                  [say (Link_regained_to_system (uasId s2)) AUDIO_SEVERITY_NOTICE,
                   heartbeatTimeout False 0])
            else (s2, []));
         s4 = (if positionLock s3 then s3\<lparr>positionLock := False\<rparr> else s3)
     in (s4, out1 @ out2 @ out3))"

section \<open>Messages\<close>

text \<open>
  The structures that the generated decoders of the MAVLink library fill in, with the
  fields the embedded cases read. A field keeps its name behind the name of its
  message. Signed fields are words read with \<open>sint\<close>.
\<close>

record mavlink_heartbeat_t =
  heartbeat_custom_mode :: "32 word"
  heartbeat_type :: "8 word"
  heartbeat_autopilot :: "8 word"
  heartbeat_base_mode :: "8 word"
  heartbeat_system_status :: "8 word"

record mavlink_sys_status_t =
  sys_status_onboard_control_sensors_enabled :: "32 word"
  sys_status_onboard_control_sensors_health :: "32 word"
  sys_status_load :: "16 word"
  sys_status_voltage_battery :: "16 word"
  sys_status_current_battery :: "16 word"
  sys_status_drop_rate_comm :: "16 word"
  sys_status_errors_comm :: "16 word"
  sys_status_errors_count1 :: "16 word"
  sys_status_errors_count2 :: "16 word"
  sys_status_errors_count3 :: "16 word"
  sys_status_errors_count4 :: "16 word"
  sys_status_battery_remaining :: "8 word"

record mavlink_battery_status_t =
  battery_status_current_consumed :: "32 word"

record mavlink_attitude_t =
  attitude_time_boot_ms :: "32 word"
  attitude_roll :: real
  attitude_pitch :: real
  attitude_yaw :: real
  attitude_rollspeed :: real
  attitude_pitchspeed :: real
  attitude_yawspeed :: real

record mavlink_attitude_quaternion_t =
  attitude_quaternion_time_boot_ms :: "32 word"
  attitude_quaternion_q1 :: real
  attitude_quaternion_q2 :: real
  attitude_quaternion_q3 :: real
  attitude_quaternion_q4 :: real
  attitude_quaternion_rollspeed :: real
  attitude_quaternion_pitchspeed :: real
  attitude_quaternion_yawspeed :: real

record mavlink_command_ack_t =
  command_ack_command :: "16 word"
  command_ack_result :: "8 word"

record mavlink_attitude_target_t =
  attitude_target_time_boot_ms :: "32 word"
  attitude_target_q :: "real \<times> real \<times> real \<times> real"
  attitude_target_thrust :: real

record mavlink_position_target_local_ned_t =
  position_target_local_ned_time_boot_ms :: "32 word"
  position_target_local_ned_x :: real
  position_target_local_ned_y :: real
  position_target_local_ned_z :: real

record mavlink_data_transmission_handshake_t =
  data_transmission_handshake_size :: "32 word"
  data_transmission_handshake_width :: "16 word"
  data_transmission_handshake_height :: "16 word"
  data_transmission_handshake_packets :: "16 word"
  data_transmission_handshake_type :: "8 word"
  data_transmission_handshake_payload :: "8 word"
  data_transmission_handshake_jpg_quality :: "8 word"

record mavlink_encapsulated_data_t =
  encapsulated_data_seqnr :: "16 word"
  encapsulated_data_data :: "8 word list"

text \<open>
  A received message: the three header fields the dispatcher reads and, in place of
  the payload bytes, what each decoder reads from them. The dispatcher chooses the
  decoder by \<open>msgid\<close>, as the switch does; a case that runs on into the next one
  decodes the same message a second time.
\<close>

record mavlink_message_t =
  sysid :: "8 word"
  compid :: "8 word"
  msgid :: "8 word"
  mavlink_msg_heartbeat_decode :: mavlink_heartbeat_t
  mavlink_msg_sys_status_decode :: mavlink_sys_status_t
  mavlink_msg_battery_status_decode :: mavlink_battery_status_t
  mavlink_msg_attitude_decode :: mavlink_attitude_t
  mavlink_msg_attitude_quaternion_decode :: mavlink_attitude_quaternion_t
  mavlink_msg_command_ack_decode :: mavlink_command_ack_t
  mavlink_msg_attitude_target_decode :: mavlink_attitude_target_t
  mavlink_msg_position_target_local_ned_decode :: mavlink_position_target_local_ned_t
  mavlink_msg_data_transmission_handshake_decode :: mavlink_data_transmission_handshake_t
  mavlink_msg_encapsulated_data_decode :: mavlink_encapsulated_data_t

text \<open>The numbers of the MAVLink common message set that the dispatcher names.\<close>

abbreviation (input) MAVLINK_MSG_ID_HEARTBEAT :: "8 word" where "MAVLINK_MSG_ID_HEARTBEAT \<equiv> 0"
abbreviation (input) MAVLINK_MSG_ID_SYS_STATUS :: "8 word" where "MAVLINK_MSG_ID_SYS_STATUS \<equiv> 1"
abbreviation (input) MAVLINK_MSG_ID_ATTITUDE :: "8 word" where "MAVLINK_MSG_ID_ATTITUDE \<equiv> 30"
abbreviation (input) MAVLINK_MSG_ID_ATTITUDE_QUATERNION :: "8 word" where
  "MAVLINK_MSG_ID_ATTITUDE_QUATERNION \<equiv> 31"
abbreviation (input) MAVLINK_MSG_ID_COMMAND_ACK :: "8 word" where "MAVLINK_MSG_ID_COMMAND_ACK \<equiv> 77"
abbreviation (input) MAVLINK_MSG_ID_ATTITUDE_TARGET :: "8 word" where
  "MAVLINK_MSG_ID_ATTITUDE_TARGET \<equiv> 83"
abbreviation (input) MAVLINK_MSG_ID_POSITION_TARGET_LOCAL_NED :: "8 word" where
  "MAVLINK_MSG_ID_POSITION_TARGET_LOCAL_NED \<equiv> 85"
abbreviation (input) MAVLINK_MSG_ID_DATA_TRANSMISSION_HANDSHAKE :: "8 word" where
  "MAVLINK_MSG_ID_DATA_TRANSMISSION_HANDSHAKE \<equiv> 130"
abbreviation (input) MAVLINK_MSG_ID_ENCAPSULATED_DATA :: "8 word" where
  "MAVLINK_MSG_ID_ENCAPSULATED_DATA \<equiv> 131"
abbreviation (input) MAVLINK_MSG_ID_BATTERY_STATUS :: "8 word" where
  "MAVLINK_MSG_ID_BATTERY_STATUS \<equiv> 147"

text \<open>
  The message ids of the cases that do nothing (\<open>RAW_IMU\<close>, \<open>SCALED_IMU\<close>,
  \<open>RAW_PRESSURE\<close>, \<open>SCALED_PRESSURE\<close>, \<open>OPTICAL_FLOW\<close>, \<open>DEBUG_VECT\<close>, \<open>DEBUG\<close>,
  \<open>NAMED_VALUE_FLOAT\<close>, \<open>NAMED_VALUE_INT\<close>, \<open>MANUAL_CONTROL\<close>, \<open>HIGHRES_IMU\<close>,
  \<open>DISTANCE_SENSOR\<close>), and of the cases that are not embedded (\<open>HIL_CONTROLS\<close>,
  \<open>VFR_HUD\<close>, \<open>LOCAL_POSITION_NED\<close>, \<open>GLOBAL_VISION_POSITION_ESTIMATE\<close>,
  \<open>GLOBAL_POSITION_INT\<close>, \<open>GPS_RAW_INT\<close>, \<open>GPS_STATUS\<close>, \<open>GPS_GLOBAL_ORIGIN\<close>,
  \<open>RC_CHANNELS\<close>, \<open>RC_CHANNELS_SCALED\<close>, \<open>PARAM_VALUE\<close>,
  \<open>SET_POSITION_TARGET_LOCAL_NED\<close>, \<open>STATUSTEXT\<close>, \<open>NAV_CONTROLLER_OUTPUT\<close>).
\<close>

definition ignored_msgids :: "8 word list" where
  "ignored_msgids = [27, 26, 28, 29, 100, 250, 254, 251, 252, 69, 105, 132]"

definition unembedded_msgids :: "8 word list" where
  "unembedded_msgids = [91, 74, 32, 101, 33, 24, 25, 49, 65, 34, 22, 84, 253, 62]"

text \<open>Component ids, system states, command results and severities of MAVLink.\<close>

abbreviation (input) MAV_COMP_ID_ALL :: "8 word" where "MAV_COMP_ID_ALL \<equiv> 0"
abbreviation (input) MAV_COMP_ID_CAMERA :: "8 word" where "MAV_COMP_ID_CAMERA \<equiv> 100"
abbreviation (input) MAV_COMP_ID_MISSIONPLANNER :: "8 word" where "MAV_COMP_ID_MISSIONPLANNER \<equiv> 190"
abbreviation (input) MAV_COMP_ID_IMU :: "8 word" where "MAV_COMP_ID_IMU \<equiv> 200"
abbreviation (input) MAV_COMP_ID_IMU_2 :: "8 word" where "MAV_COMP_ID_IMU_2 \<equiv> 201"

abbreviation (input) MAV_STATE_UNINIT :: int where "MAV_STATE_UNINIT \<equiv> 0"
abbreviation (input) MAV_STATE_BOOT :: int where "MAV_STATE_BOOT \<equiv> 1"
abbreviation (input) MAV_STATE_CALIBRATING :: int where "MAV_STATE_CALIBRATING \<equiv> 2"
abbreviation (input) MAV_STATE_STANDBY :: int where "MAV_STATE_STANDBY \<equiv> 3"
abbreviation (input) MAV_STATE_ACTIVE :: int where "MAV_STATE_ACTIVE \<equiv> 4"
abbreviation (input) MAV_STATE_CRITICAL :: int where "MAV_STATE_CRITICAL \<equiv> 5"
abbreviation (input) MAV_STATE_EMERGENCY :: int where "MAV_STATE_EMERGENCY \<equiv> 6"
abbreviation (input) MAV_STATE_POWEROFF :: int where "MAV_STATE_POWEROFF \<equiv> 7"

abbreviation (input) MAV_RESULT_ACCEPTED :: "8 word" where "MAV_RESULT_ACCEPTED \<equiv> 0"
abbreviation (input) MAV_RESULT_TEMPORARILY_REJECTED :: "8 word" where
  "MAV_RESULT_TEMPORARILY_REJECTED \<equiv> 1"
abbreviation (input) MAV_RESULT_DENIED :: "8 word" where "MAV_RESULT_DENIED \<equiv> 2"
abbreviation (input) MAV_RESULT_UNSUPPORTED :: "8 word" where "MAV_RESULT_UNSUPPORTED \<equiv> 3"
abbreviation (input) MAV_RESULT_FAILED :: "8 word" where "MAV_RESULT_FAILED \<equiv> 4"

abbreviation (input) MAV_SEVERITY_ERROR :: int where "MAV_SEVERITY_ERROR \<equiv> 3"
abbreviation (input) MAV_SEVERITY_WARNING :: int where "MAV_SEVERITY_WARNING \<equiv> 4"
abbreviation (input) MAV_SEVERITY_INFO :: int where "MAV_SEVERITY_INFO \<equiv> 6"

abbreviation (input) MAV_TYPE_GENERIC :: int where "MAV_TYPE_GENERIC \<equiv> 0"
abbreviation (input) MAV_TYPE_FIXED_WING :: int where "MAV_TYPE_FIXED_WING \<equiv> 1"
abbreviation (input) MAV_TYPE_QUADROTOR :: int where "MAV_TYPE_QUADROTOR \<equiv> 2"
abbreviation (input) MAV_TYPE_HEXAROTOR :: int where "MAV_TYPE_HEXAROTOR \<equiv> 13"

section \<open>The cases of the dispatcher\<close>

text \<open>
  Each case of the switch in \<open>receiveMessage\<close> is a function of the message, of the
  two flags \<open>multiComponentSourceDetected\<close> and \<open>wrongComponent\<close> where the case reads
  them, and of the object. A \<open>break\<close> at the head of a case returns the object
  unchanged and no notification.
\<close>

subsection \<open>Heartbeat\<close>

definition getStatusForCode :: "int \<Rightarrow> string \<times> string" where
  "getStatusForCode statusCode =
    (if statusCode = MAV_STATE_UNINIT then (''UNINIT'', ''Unitialized, booting up.'')
     else if statusCode = MAV_STATE_BOOT then (''BOOT'', ''Booting system, please wait.'')
     else if statusCode = MAV_STATE_CALIBRATING
       then (''CALIBRATING'', ''Calibrating sensors, please wait.'')
     else if statusCode = MAV_STATE_ACTIVE then (''ACTIVE'', ''Active, normal operation.'')
     else if statusCode = MAV_STATE_STANDBY then (''STANDBY'', ''Standby mode, ready for launch.'')
     else if statusCode = MAV_STATE_CRITICAL then (''CRITICAL'', ''FAILURE: Continuing operation.'')
     else if statusCode = MAV_STATE_EMERGENCY then (''EMERGENCY'', ''EMERGENCY: Land Immediately!'')
     else if statusCode = MAV_STATE_POWEROFF then (''SHUTDOWN'', ''Powering off system.'')
     else (''UNKNOWN'', ''Unknown system state''))"

definition setSystemType :: "environment \<Rightarrow> int \<Rightarrow> uas \<Rightarrow> uas \<times> signal list" where
  "setSystemType env systemType s =
    (if systemType \<ge> MAV_TYPE_GENERIC \<and> systemType < MAV_TYPE_ENUM_END env then
       (let s1 = s\<lparr>type := systemType\<rparr>;
            store = (\<lambda>a. case setAirframe env a s1 of (a', out) \<Rightarrow> (s1\<lparr>airframe := a'\<rparr>, out));
            (s2, out) =
              (if airframe s1 = 0 then
                 (if type s1 = MAV_TYPE_FIXED_WING then store (QGC_AIRFRAME_EASYSTAR env)
                  else if type s1 = MAV_TYPE_QUADROTOR then store (QGC_AIRFRAME_CHEETAH env)
                  else if type s1 = MAV_TYPE_HEXAROTOR then store (QGC_AIRFRAME_HEXCOPTER env)
                  else (s1, []))
               else (s1, []))
        in (s2, out @ [systemSpecsChanged (uasId s2), systemTypeSet (type s2)]))
     else (s, []))"

text \<open>The four replacements of the state name "for better audio".\<close>

definition audio_state_name :: "string \<Rightarrow> string" where
  "audio_state_name uasState =
    (let u1 = (if uasState = ''STANDBY'' then ''standing by'' else uasState);
         u2 = (if u1 = ''EMERGENCY'' then ''emergency condition'' else u1);
         u3 = (if u2 = ''CRITICAL'' then ''critical condition'' else u2)
     in if u3 = ''SHUTDOWN'' then ''shutting down'' else u3)"

definition case_HEARTBEAT ::
  "environment \<Rightarrow> mavlink_message_t \<Rightarrow> bool \<Rightarrow> bool \<Rightarrow> uas \<Rightarrow> uas \<times> signal list" where
  "case_HEARTBEAT env message multiComponentSourceDetected wrongComponent s =
    (if multiComponentSourceDetected \<and> wrongComponent then (s, [])
     else
       (let s1 = s\<lparr>lastHeartbeat := groundTimeUsecs env\<rparr>;
            state = mavlink_msg_heartbeat_decode message;
            (time, s2) = getUnixTime env 0 s1;
            name = Field (sysid message) ''HEARTBEAT'';
            out1 =
              [heartbeat,
               valueChanged (uasId s2) (name ''base_mode'') ''bits''
                 (real (unat (heartbeat_base_mode state))) time,
               valueChanged (uasId s2) (name ''custom_mode'') ''bits''
                 (real (unat (heartbeat_custom_mode state))) time,
               valueChanged (uasId s2) (name ''system_status'') ''-''
                 (real (unat (heartbeat_system_status state))) time];
            (s3, out2) =
              (if type s2 \<noteq> uint (heartbeat_type state)
               then setSystemType env (uint (heartbeat_type state))
                      (s2\<lparr>autopilot := uint (heartbeat_autopilot state)\<rparr>)
               else (s2, []));
            audiomodeText =
              flightMode env (heartbeat_autopilot state) (heartbeat_type state)
                (heartbeat_base_mode state) (heartbeat_custom_mode state);
            system_status = uint (heartbeat_system_status state);
            statechanged = (system_status \<noteq> status s3 \<and> system_status \<noteq> MAV_STATE_UNINIT);
            (uasState, stateDescription) = getStatusForCode system_status;
            (s4, out3, stateAudio) =
              (if statechanged
               then (s3\<lparr>status := system_status\<rparr>,
                     [statusChanged_text uasState stateDescription, statusChanged system_status],
                     audio_state_name uasState)
               else (s3, [], []));
            modechanged =
              (base_mode s4 \<noteq> heartbeat_base_mode state
               \<or> custom_mode s4 \<noteq> heartbeat_custom_mode state);
            (s5, modeAudio) =
              (if modechanged
               then (s4\<lparr>base_mode := heartbeat_base_mode state,
                        custom_mode := heartbeat_custom_mode state\<rparr>,
                     '' is now in '' @ audiomodeText @ ''flight mode'')
               else (s4, []));
            s6 = s5\<lparr>receivedMode := True\<rparr>;
            audiostring =
              (if modechanged \<and> statechanged then modeAudio @ '' and '' @ stateAudio
               else if modechanged \<or> statechanged then modeAudio @ stateAudio
               else []);
            out4 =
              (if statechanged
                  \<and> (system_status = MAV_STATE_CRITICAL \<or> system_status = MAV_STATE_EMERGENCY)
               then [say (Emergency_for_system (uasId s6)) AUDIO_SEVERITY_EMERGENCY, startEmergency]
               else if modechanged \<or> statechanged
               then [say (System_announcement (uasId s6) audiostring) AUDIO_SEVERITY_DEFAULT]
               else [])
        in (s6, out1 @ out2 @ out3 @ out4)))"

subsection \<open>Battery status and system status\<close>

definition case_BATTERY_STATUS ::
  "environment \<Rightarrow> mavlink_message_t \<Rightarrow> bool \<Rightarrow> bool \<Rightarrow> uas \<Rightarrow> uas \<times> signal list" where
  "case_BATTERY_STATUS env message multiComponentSourceDetected wrongComponent s =
    (if multiComponentSourceDetected \<and> wrongComponent then (s, [])
     else
       (let bat_status = mavlink_msg_battery_status_decode message
        in (s, [batteryConsumedChanged
                  (real_of_int (sint (battery_status_current_consumed bat_status)))])))"

definition filterVoltage :: "real \<Rightarrow> uas \<Rightarrow> real \<times> uas" where
  "filterVoltage v s =
    (let s1 = (if lpVoltage s < 0 then s\<lparr>lpVoltage := v\<rparr> else s);
         s2 = s1\<lparr>lpVoltage := lpVoltage s1 * 0.6 + v * 0.4\<rparr>
     in (lpVoltage s2, s2))"

definition getChargeLevel :: "uas \<Rightarrow> real" where
  "getChargeLevel s = real_of_int (chargeLevel s)"

definition startLowBattAlarm :: "uas \<Rightarrow> uas \<times> signal list" where
  "startLowBattAlarm s =
    (if \<not> lowBattAlarm s
     then (s\<lparr>lowBattAlarm := True\<rparr>,
           [say (System_has_low_battery (uasId s)) AUDIO_SEVERITY_DEFAULT])
     else (s, []))"

definition stopLowBattAlarm :: "uas \<Rightarrow> uas \<times> signal list" where
  "stopLowBattAlarm s = (if lowBattAlarm s then (s\<lparr>lowBattAlarm := False\<rparr>, []) else (s, []))"

text \<open>
  The body of the conditional on a usable battery voltage in the system-status case,
  in three steps. First the sample is stored, the low-pass filter and the slower tick
  filter are updated and, while the tick voltage is above the threshold, the last tick
  value follows it.
\<close>

definition SYS_STATUS_voltage_filters :: "mavlink_sys_status_t \<Rightarrow> uas \<Rightarrow> uas" where
  "SYS_STATUS_voltage_filters state s =
    (let s1 = s\<lparr>currentVoltage := real (unat (sys_status_voltage_battery state)) / 1000\<rparr>;
         s2 = snd (filterVoltage (currentVoltage s1) s1);
         s3 = s2\<lparr>tickLowpassVoltage := tickLowpassVoltage s2 * 0.8 + 0.2 * currentVoltage s2\<rparr>
     in if tickLowpassVoltage s3 > tickVoltage s3
        then s3\<lparr>lastTickVoltageValue := tickLowpassVoltage s3\<rparr> else s3)"

text \<open>Then the tick alert: the condition of the spoken warning and what it records.\<close>

definition SYS_STATUS_tick_alert :: "environment \<Rightarrow> uas \<Rightarrow> uas \<times> signal list" where
  "SYS_STATUS_tick_alert env s =
    (if startVoltage s > 0 \<and> tickLowpassVoltage s < tickVoltage s
        \<and> \<bar>lastTickVoltageValue s - tickLowpassVoltage s\<bar> > 0.1
        \<and> lpVoltage s < tickVoltage s
        \<and> currentVoltage s > 3.3
        \<and> currentVoltage s - 0.2 < tickVoltage s
        \<and> groundTimeUsecs env - lastVoltageWarning s > 20000000
     then (s\<lparr>lastVoltageWarning := groundTimeUsecs env,
              lastTickVoltageValue := tickLowpassVoltage s\<rparr>,
           [say (Low_battery_system_volts (uasId s) (lpVoltage s)) AUDIO_SEVERITY_DEFAULT])
     else (s, []))"

text \<open>Last the start voltage, the charge level and the battery notification.\<close>

definition SYS_STATUS_battery ::
  "environment \<Rightarrow> mavlink_sys_status_t \<Rightarrow> uas \<Rightarrow> uas \<times> signal list" where
  "SYS_STATUS_battery env state s =
    (let s4 = SYS_STATUS_voltage_filters state s;
         (s5, out) = SYS_STATUS_tick_alert env s4;
         s6 = (if startVoltage s5 = - 1 \<and> currentVoltage s5 > 0.1
               then s5\<lparr>startVoltage := currentVoltage s5\<rparr> else s5);
         s7 = s6\<lparr>chargeLevel := sint (sys_status_battery_remaining state)\<rparr>
     in (s7, out @ [batteryChanged (lpVoltage s7) (currentCurrent s7) (getChargeLevel s7) 0]))"

definition case_SYS_STATUS ::
  "environment \<Rightarrow> mavlink_message_t \<Rightarrow> bool \<Rightarrow> bool \<Rightarrow> uas \<Rightarrow> uas \<times> signal list" where
  "case_SYS_STATUS env message multiComponentSourceDetected wrongComponent s =
    (if multiComponentSourceDetected \<and> wrongComponent then (s, [])
     else
       (let state = mavlink_msg_sys_status_decode message;
            (time, s0) = getUnixTime env 0 s;
            name = Field (sysid message) ''SYS_STATUS'';
            plot = (\<lambda>field unit v. valueChanged (uasId s0) (name field) unit v time);
            out1 =
              [plot ''sensors_enabled'' ''bits''
                 (real (unat (sys_status_onboard_control_sensors_enabled state))),
               plot ''sensors_health'' ''bits''
                 (real (unat (sys_status_onboard_control_sensors_health state))),
               plot ''errors_comm'' ''-'' (real (unat (sys_status_errors_comm state))),
               plot ''errors_count1'' ''-'' (real (unat (sys_status_errors_count1 state))),
               plot ''errors_count2'' ''-'' (real (unat (sys_status_errors_count2 state))),
               plot ''errors_count3'' ''-'' (real (unat (sys_status_errors_count3 state))),
               plot ''errors_count4'' ''-'' (real (unat (sys_status_errors_count4 state))),
               loadChanged (real (unat (sys_status_load state)) / 10),
               plot ''load'' ''%'' (real (unat (sys_status_load state)) / 10)];
            (s1, out2) =
              (if sys_status_voltage_battery state \<noteq> 0
                  \<and> sys_status_voltage_battery state \<noteq> 65535
               then SYS_STATUS_battery env state s0 else (s0, []));
            out3 =
              [plot ''battery_remaining'' ''%'' (getChargeLevel s1),
               plot ''battery_voltage'' ''V'' (currentVoltage s1)];
            (s2, out4) =
              (if sint (sys_status_current_battery state) \<noteq> - 1
               then (let s' = s1\<lparr>currentCurrent :=
                                   real_of_int (sint (sys_status_current_battery state)) / 100\<rparr>
                     in (s', [plot ''battery_current'' ''A'' (currentCurrent s')]))
               else (s1, []));
            (s3, out5) =
              (if chargeLevel s2 \<ge> 0 \<and> getChargeLevel s2 < warnLevelPercent s2
               then startLowBattAlarm s2 else stopLowBattAlarm s2);
            enabled = sys_status_onboard_control_sensors_enabled state;
            out6 =
              [attitudeControlEnabled (bit enabled 11),
               positionYawControlEnabled (bit enabled 12),
               positionZControlEnabled (bit enabled 13),
               positionXYControlEnabled (bit enabled 14)];
            drop_rate_comm =
              (if sys_status_drop_rate_comm state > 10000 then 10000
               else sys_status_drop_rate_comm state);
            out7 =
              [dropRateChanged (uasId s3) (real (unat drop_rate_comm) / 100),
               plot ''drop_rate_comm'' ''%'' (real (unat drop_rate_comm) / 100)]
        in (s3, out1 @ out2 @ out3 @ out4 @ out5 @ out6 @ out7)))"

subsection \<open>Attitude\<close>

text \<open>
  Modelled from the spec: the setters and getters of the attitude angles are declared
  in the class header, which is not among the sources; following the data model of the
  specification (roll, pitch and yaw are members of the vehicle state) a setter stores
  the angle and a getter reads it.
\<close>

definition setRoll :: "real \<Rightarrow> uas \<Rightarrow> uas" where "setRoll val s = s\<lparr>roll := val\<rparr>"
definition setPitch :: "real \<Rightarrow> uas \<Rightarrow> uas" where "setPitch val s = s\<lparr>pitch := val\<rparr>"
definition setYaw :: "real \<Rightarrow> uas \<Rightarrow> uas" where "setYaw val s = s\<lparr>yaw := val\<rparr>"
definition getRoll :: "uas \<Rightarrow> real" where "getRoll s = roll s"
definition getPitch :: "uas \<Rightarrow> real" where "getPitch s = pitch s"
definition getYaw :: "uas \<Rightarrow> real" where "getYaw s = yaw s"

definition case_ATTITUDE ::
  "environment \<Rightarrow> mavlink_message_t \<Rightarrow> bool \<Rightarrow> uas \<Rightarrow> uas \<times> signal list" where
  "case_ATTITUDE env message wrongComponent s =
    (let attitude = mavlink_msg_attitude_decode message;
         (time, s1) = getUnixReferenceTime env (ucast (attitude_time_boot_ms attitude)) s;
         limit = limitAngleToPMPIf env;
         out1 = [attitudeChanged_component (uint (compid message)) (limit (attitude_roll attitude))
                   (limit (attitude_pitch attitude)) (limit (attitude_yaw attitude)) time]
     in if \<not> wrongComponent then
          (let s2 = s1\<lparr>lastAttitude := time\<rparr>;
               s3 = setRoll (limit (attitude_roll attitude)) s2;
               s4 = setPitch (limit (attitude_pitch attitude)) s3;
               s5 = setYaw (limit (attitude_yaw attitude)) s4;
               s6 = s5\<lparr>attitudeKnown := True\<rparr>
           in (s6, out1 @
                 [attitudeChanged (getRoll s6) (getPitch s6) (getYaw s6) time,
                  attitudeRotationRatesChanged (uasId s6) (attitude_rollspeed attitude)
                    (attitude_pitchspeed attitude) (attitude_yawspeed attitude) time]))
        else (s1, out1))"

text \<open>
  The two-argument arc tangent of the C library, as the function of real numbers it
  computes; \<open>asin\<close> is \<open>arcsin\<close> (the C function gives NaN outside \<open>[-1, 1]\<close>, which
  the model does not represent).
\<close>

definition atan2 :: "real \<Rightarrow> real \<Rightarrow> real" where
  "atan2 y x =
    (if x > 0 then arctan (y / x)
     else if x < 0 \<and> y \<ge> 0 then arctan (y / x) + pi
     else if x < 0 then arctan (y / x) - pi
     else if y > 0 then pi / 2
     else if y < 0 then - (pi / 2)
     else 0)"

text \<open>
  The direction-cosine matrix of the quaternion case, \<open>dcm i j\<close> for \<open>dcm[i][j]\<close>, and
  the Euler angles \<open>(phi, theta, psi)\<close> extracted from it.
\<close>

definition attitude_quaternion_dcm :: "mavlink_attitude_quaternion_t \<Rightarrow> nat \<Rightarrow> nat \<Rightarrow> real" where
  "attitude_quaternion_dcm attitude =
    (let a = attitude_quaternion_q1 attitude;
         b = attitude_quaternion_q2 attitude;
         c = attitude_quaternion_q3 attitude;
         d = attitude_quaternion_q4 attitude;
         aSq = a * a; bSq = b * b; cSq = c * c; dSq = d * d
     in (\<lambda>i j.
          if i = 0 \<and> j = 0 then aSq + bSq - cSq - dSq
          else if i = 0 \<and> j = 1 then 2 * (b * c - a * d)
          else if i = 0 \<and> j = 2 then 2 * (a * c + b * d)
          else if i = 1 \<and> j = 0 then 2 * (b * c + a * d)
          else if i = 1 \<and> j = 1 then aSq - bSq + cSq - dSq
          else if i = 1 \<and> j = 2 then 2 * (c * d - a * b)
          else if i = 2 \<and> j = 0 then 2 * (b * d - a * c)
          else if i = 2 \<and> j = 1 then 2 * (a * b + c * d)
          else aSq - bSq - cSq + dSq))"

definition attitude_quaternion_euler :: "mavlink_attitude_quaternion_t \<Rightarrow> real \<times> real \<times> real" where
  "attitude_quaternion_euler attitude =
    (let dcm = attitude_quaternion_dcm attitude;
         theta = arcsin (- dcm 2 0)
     in if \<bar>theta - pi / 2\<bar> < 1 / 1000 then
          (let phi = 0;
               psi = atan2 (dcm 1 2 - dcm 0 1) (dcm 0 2 + dcm 1 1) + phi
           in (phi, theta, psi))
        else if \<bar>theta + pi / 2\<bar> < 1 / 1000 then
          (let phi = 0;
               psi = atan2 (dcm 1 2 - dcm 0 1) (dcm 0 2 + dcm 1 1 - phi)
           in (phi, theta, psi))
        else
          (let phi = atan2 (dcm 2 1) (dcm 2 2);
               psi = atan2 (dcm 1 0) (dcm 0 0)
           in (phi, theta, psi)))"

definition case_ATTITUDE_QUATERNION ::
  "environment \<Rightarrow> mavlink_message_t \<Rightarrow> bool \<Rightarrow> uas \<Rightarrow> uas \<times> signal list" where
  "case_ATTITUDE_QUATERNION env message wrongComponent s =
    (let attitude = mavlink_msg_attitude_quaternion_decode message;
         (time, s1) =
           getUnixReferenceTime env (ucast (attitude_quaternion_time_boot_ms attitude)) s;
         (phi, theta, psi) = attitude_quaternion_euler attitude;
         limit = limitAngleToPMPIf env;
         out1 = [attitudeChanged_component (uint (compid message)) (limit phi) (limit theta)
                   (limit psi) time]
     in if \<not> wrongComponent then
          (let s2 = s1\<lparr>lastAttitude := time\<rparr>;
               s3 = setRoll (limit phi) s2;
               s4 = setPitch (limit theta) s3;
               s5 = setYaw (limit psi) s4;
               s6 = s5\<lparr>attitudeKnown := True\<rparr>
           in (s6, out1 @
                 [attitudeChanged (getRoll s6) (getPitch s6) (getYaw s6) time,
                  attitudeRotationRatesChanged (uasId s6) (attitude_quaternion_rollspeed attitude)
                    (attitude_quaternion_pitchspeed attitude)
                    (attitude_quaternion_yawspeed attitude) time]))
        else (s1, out1))"

subsection \<open>Command acknowledgment, attitude target, position target\<close>

text \<open>
  The block of the case \<open>COMMAND_ACK\<close>: its inner switch on the result code. The block
  is not followed by a \<open>break\<close>; the dispatcher below continues with the next case.
\<close>

definition case_COMMAND_ACK :: "mavlink_message_t \<Rightarrow> uas \<Rightarrow> uas \<times> signal list" where
  "case_COMMAND_ACK message s =
    (let ack = mavlink_msg_command_ack_decode message;
         text = (\<lambda>severity txt. [textMessageReceived (uasId s) (uint (compid message)) severity txt
                                   (uint (command_ack_command ack))])
     in (s,
         if command_ack_result ack = MAV_RESULT_ACCEPTED
           then text MAV_SEVERITY_INFO ''SUCCESS: Executed CMD: %1''
         else if command_ack_result ack = MAV_RESULT_TEMPORARILY_REJECTED
           then text MAV_SEVERITY_WARNING ''FAILURE: Temporarily rejected CMD: %1''
         else if command_ack_result ack = MAV_RESULT_DENIED
           then text MAV_SEVERITY_ERROR ''FAILURE: Denied CMD: %1''
         else if command_ack_result ack = MAV_RESULT_UNSUPPORTED
           then text MAV_SEVERITY_WARNING ''FAILURE: Unsupported CMD: %1''
         else if command_ack_result ack = MAV_RESULT_FAILED
           then text MAV_SEVERITY_ERROR ''FAILURE: Failed CMD: %1''
         else []))"

definition case_ATTITUDE_TARGET ::
  "environment \<Rightarrow> mavlink_message_t \<Rightarrow> uas \<Rightarrow> uas \<times> signal list" where
  "case_ATTITUDE_TARGET env message s =
    (let out = mavlink_msg_attitude_target_decode message;
         (roll, pitch, yaw) = mavlink_quaternion_to_euler env (attitude_target_q out);
         (time, s1) = getUnixTimeFromMs env (ucast (attitude_target_time_boot_ms out)) s
     in (s1,
         [attitudeThrustSetPointChanged roll pitch yaw (attitude_target_thrust out) time,
          valueChanged (uasId s1) (Name ''roll sp'') ''rad'' roll time,
          valueChanged (uasId s1) (Name ''pitch sp'') ''rad'' pitch time,
          valueChanged (uasId s1) (Name ''yaw sp'') ''rad'' yaw time]))"

definition case_POSITION_TARGET_LOCAL_NED ::
  "environment \<Rightarrow> mavlink_message_t \<Rightarrow> bool \<Rightarrow> bool \<Rightarrow> uas \<Rightarrow> uas \<times> signal list" where
  "case_POSITION_TARGET_LOCAL_NED env message multiComponentSourceDetected wrongComponent s =
    (if multiComponentSourceDetected \<and> wrongComponent then (s, [])
     else
       (let p = mavlink_msg_position_target_local_ned_decode message;
            (time, s1) =
              getUnixTimeFromMs env (ucast (position_target_local_ned_time_boot_ms p)) s
        in (s1, [positionSetPointsChanged (uasId s1) (position_target_local_ned_x p)
                   (position_target_local_ned_y p) (position_target_local_ned_z p) 0 time])))"

subsection \<open>Image transfer\<close>

definition case_DATA_TRANSMISSION_HANDSHAKE ::
  "environment \<Rightarrow> mavlink_message_t \<Rightarrow> uas \<Rightarrow> uas \<times> signal list" where
  "case_DATA_TRANSMISSION_HANDSHAKE env message s =
    (let p = mavlink_msg_data_transmission_handshake_decode message
     in (s\<lparr>imageSize := sint (data_transmission_handshake_size p),
           imagePackets := uint (data_transmission_handshake_packets p),
           imagePayload := uint (data_transmission_handshake_payload p),
           imageQuality := uint (data_transmission_handshake_jpg_quality p),
           imageType := uint (data_transmission_handshake_type p),
           imageWidth := uint (data_transmission_handshake_width p),
           imageHeight := uint (data_transmission_handshake_height p),
           imageStart := groundTimeMilliseconds env,
           imagePacketsArrived := 0\<rparr>, []))"

text \<open>
  An assignment to \<open>imageRecBuffer[pos]\<close>. The buffer is a \<open>QByteArray\<close>: an
  assignment through its index operator beyond the end first extends the array up to
  that index (the bytes in between are not initialised; the model gives them zero).
\<close>

definition QByteArray_assign :: "8 word list \<Rightarrow> int \<Rightarrow> 8 word \<Rightarrow> 8 word list" where
  "QByteArray_assign buffer pos byte =
    (if pos < 0 then buffer
     else if nat pos < length buffer then buffer[nat pos := byte]
     else buffer @ replicate (nat pos - length buffer) 0 @ [byte])"

text \<open>
  A read of \<open>img.data[i]\<close>. The array has 253 bytes; the loop index is below the 8-bit
  payload size, and a read past the array, which C leaves undefined, is given zero.
\<close>

definition data_at :: "8 word list \<Rightarrow> int \<Rightarrow> 8 word" where
  "data_at bytes i = (if 0 \<le> i \<and> nat i < length bytes then bytes ! nat i else 0)"

text \<open>
  The loop \<open>for (int i = 0; i < imagePayload; ++i)\<close> of the data case, from index
  \<open>i\<close> and position \<open>pos\<close> on.
\<close>

function image_copy :: "int \<Rightarrow> int \<Rightarrow> int \<Rightarrow> int \<Rightarrow> 8 word list \<Rightarrow> 8 word list \<Rightarrow> 8 word list" where
  "image_copy i payload pos imgSize bytes buffer =
    (if i < payload
     then image_copy (i + 1) payload (pos + 1) imgSize bytes
            (if pos \<le> imgSize then QByteArray_assign buffer pos (data_at bytes i) else buffer)
     else buffer)"
  by pat_completeness auto
termination
  by (relation "measure (\<lambda>(i, payload, pos, imgSize, bytes, buffer). nat (payload - i))") auto

definition case_ENCAPSULATED_DATA :: "mavlink_message_t \<Rightarrow> uas \<Rightarrow> uas \<times> signal list" where
  "case_ENCAPSULATED_DATA message s =
    (let img = mavlink_msg_encapsulated_data_decode message;
         seq = uint (encapsulated_data_seqnr img);
         pos = seq * imagePayload s
     in if imagePackets s = 0 then (s\<lparr>imagePacketsArrived := 0\<rparr>, [])
        else
          (let s1 = s\<lparr>imageRecBuffer :=
                       image_copy 0 (imagePayload s) pos (imageSize s)
                         (encapsulated_data_data img) (imageRecBuffer s)\<rparr>;
               s2 = s1\<lparr>imagePacketsArrived := imagePacketsArrived s1 + 1\<rparr>
           in if imagePacketsArrived s2 \<ge> imagePackets s2
              then (s2\<lparr>imagePackets := 0, imagePacketsArrived := 0\<rparr>, [imageReady])
              else (s2, [])))"

text \<open>
  A sequence of data messages, each handled by the data case; the result is the final
  object and, for each message, what it emitted.
\<close>

fun ENCAPSULATED_DATA_sequence ::
  "mavlink_message_t list \<Rightarrow> uas \<Rightarrow> uas \<times> signal list list" where
  "ENCAPSULATED_DATA_sequence [] s = (s, [])"
| "ENCAPSULATED_DATA_sequence (message # rest) s =
     (case case_ENCAPSULATED_DATA message s of
        (s', out) \<Rightarrow>
          (case ENCAPSULATED_DATA_sequence rest s' of (s'', outs) \<Rightarrow> (s'', out # outs)))"

subsection \<open>Unknown messages\<close>

definition case_default :: "mavlink_message_t \<Rightarrow> uas \<Rightarrow> uas \<times> signal list" where
  "case_default message s =
    (if uint (msgid message) \<notin> set (unknownPackets s)
     then (s\<lparr>unknownPackets := unknownPackets s @ [uint (msgid message)]\<rparr>, [])
     else (s, []))"

section \<open>The dispatcher\<close>

text \<open>
  The name under which a component is entered into \<open>components\<close> when it is seen for
  the first time.
\<close>

definition componentName :: "8 word \<Rightarrow> string" where
  "componentName c =
    (if c = MAV_COMP_ID_ALL then ''ANONYMOUS''
     else if c = MAV_COMP_ID_IMU then ''IMU #1''
     else if c = MAV_COMP_ID_CAMERA then ''CAMERA''
     else if c = MAV_COMP_ID_MISSIONPLANNER then ''MISSIONPLANNER''
     else [])"

text \<open>
  \<open>receiveMessage\<close> in its four parts. First the component is registered, whatever
  the system of the message.
\<close>

definition register_component :: "mavlink_message_t \<Rightarrow> uas \<Rightarrow> uas" where
  "register_component message s =
    (if uint (compid message) \<notin> dom (components s)
     then s\<lparr>components :=
              (components s)(uint (compid message) \<mapsto> componentName (compid message))\<rparr>
     else s)"

text \<open>The condition on the system id and on the attitude-stamped mode.\<close>

definition accepted :: "mavlink_message_t \<Rightarrow> uas \<Rightarrow> bool" where
  "accepted message s \<longleftrightarrow>
    uint (sysid message) = uasId s
    \<and> (\<not> attitudeStamped s \<or> (attitudeStamped s \<and> lastAttitude s \<noteq> 0)
         \<or> msgid message = MAVLINK_MSG_ID_ATTITUDE)"

text \<open>
  The owner of the message type: the second IMU takes the type over, the first
  component seen becomes the owner, and a message of another component than the owner
  sets \<open>componentMulti\<close> for the type. The result is the object and \<open>wrongComponent\<close>.
\<close>

definition resolve_component :: "mavlink_message_t \<Rightarrow> uas \<Rightarrow> uas \<times> bool" where
  "resolve_component message s =
    (let s1 =
           (if compid message = MAV_COMP_ID_IMU_2
            then s\<lparr>componentID := (componentID s)(msgid message := uint MAV_COMP_ID_IMU_2)\<rparr>
            else s)
     in if componentID s1 (msgid message) = - 1
        then (s1\<lparr>componentID := (componentID s1)(msgid message := uint (compid message))\<rparr>,
              False)
        else if componentID s1 (msgid message) \<noteq> uint (compid message)
        then (s1\<lparr>componentMulti := (componentMulti s1)(msgid message := True)\<rparr>, True)
        else (s1, False))"

text \<open>
  The switch on the message id. The case of the command acknowledgment is followed by
  the case of the attitude target without a \<open>break\<close> in between. The cases that are
  not embedded are the parameter \<open>unembedded\<close>, a function of the message, of
  \<open>wrongComponent\<close> and of the object.
\<close>

definition switch_msgid ::
  "environment \<Rightarrow> (mavlink_message_t \<Rightarrow> bool \<Rightarrow> uas \<Rightarrow> uas \<times> signal list)
     \<Rightarrow> mavlink_message_t \<Rightarrow> bool \<Rightarrow> bool \<Rightarrow> uas \<Rightarrow> uas \<times> signal list" where
  "switch_msgid env unembedded message multiComponentSourceDetected wrongComponent s =
    (if msgid message = MAVLINK_MSG_ID_HEARTBEAT
       then case_HEARTBEAT env message multiComponentSourceDetected wrongComponent s
     else if msgid message = MAVLINK_MSG_ID_BATTERY_STATUS
       then case_BATTERY_STATUS env message multiComponentSourceDetected wrongComponent s
     else if msgid message = MAVLINK_MSG_ID_SYS_STATUS
       then case_SYS_STATUS env message multiComponentSourceDetected wrongComponent s
     else if msgid message = MAVLINK_MSG_ID_ATTITUDE
       then case_ATTITUDE env message wrongComponent s
     else if msgid message = MAVLINK_MSG_ID_ATTITUDE_QUATERNION
       then case_ATTITUDE_QUATERNION env message wrongComponent s
     else if msgid message = MAVLINK_MSG_ID_COMMAND_ACK
       then (let (s1, out1) = case_COMMAND_ACK message s;
                 (s2, out2) = case_ATTITUDE_TARGET env message s1
             in (s2, out1 @ out2))
     else if msgid message = MAVLINK_MSG_ID_ATTITUDE_TARGET
       then case_ATTITUDE_TARGET env message s
     else if msgid message = MAVLINK_MSG_ID_POSITION_TARGET_LOCAL_NED
       then case_POSITION_TARGET_LOCAL_NED env message multiComponentSourceDetected
              wrongComponent s
     else if msgid message = MAVLINK_MSG_ID_DATA_TRANSMISSION_HANDSHAKE
       then case_DATA_TRANSMISSION_HANDSHAKE env message s
     else if msgid message = MAVLINK_MSG_ID_ENCAPSULATED_DATA
       then case_ENCAPSULATED_DATA message s
     else if msgid message \<in> set ignored_msgids then (s, [])
     else if msgid message \<in> set unembedded_msgids
       then unembedded message wrongComponent s
     else case_default message s)"

definition receiveMessage ::
  "environment \<Rightarrow> (mavlink_message_t \<Rightarrow> bool \<Rightarrow> uas \<Rightarrow> uas \<times> signal list)
     \<Rightarrow> mavlink_message_t \<Rightarrow> uas \<Rightarrow> uas \<times> signal list" where
  "receiveMessage env unembedded message s =
    (let s0 = register_component message s
     in if accepted message s0
        then
          (let (s2, wrongComponent) = resolve_component message s0;
               multiComponentSourceDetected = componentMulti s2 (msgid message)
           in switch_msgid env unembedded message multiComponentSourceDetected wrongComponent s2)
        else (s0, []))"

section \<open>Example messages\<close>

text \<open>
  A message with the given header whose payload bytes are all zero: every decoder
  reads zeros (and no data bytes). The examples below change the fields they need.
\<close>

definition mavlink_message :: "8 word \<Rightarrow> 8 word \<Rightarrow> 8 word \<Rightarrow> mavlink_message_t" where
  "mavlink_message system component message_id =
    \<lparr> sysid = system, compid = component, msgid = message_id,
      mavlink_msg_heartbeat_decode =
        \<lparr> heartbeat_custom_mode = 0, heartbeat_type = 0, heartbeat_autopilot = 0,
          heartbeat_base_mode = 0, heartbeat_system_status = 0 \<rparr>,
      mavlink_msg_sys_status_decode =
        \<lparr> sys_status_onboard_control_sensors_enabled = 0,
          sys_status_onboard_control_sensors_health = 0,
          sys_status_load = 0, sys_status_voltage_battery = 0,
          sys_status_current_battery = 0, sys_status_drop_rate_comm = 0,
          sys_status_errors_comm = 0, sys_status_errors_count1 = 0,
          sys_status_errors_count2 = 0, sys_status_errors_count3 = 0,
          sys_status_errors_count4 = 0, sys_status_battery_remaining = 0 \<rparr>,
      mavlink_msg_battery_status_decode = \<lparr> battery_status_current_consumed = 0 \<rparr>,
      mavlink_msg_attitude_decode =
        \<lparr> attitude_time_boot_ms = 0, attitude_roll = 0, attitude_pitch = 0, attitude_yaw = 0,
          attitude_rollspeed = 0, attitude_pitchspeed = 0, attitude_yawspeed = 0 \<rparr>,
      mavlink_msg_attitude_quaternion_decode =
        \<lparr> attitude_quaternion_time_boot_ms = 0, attitude_quaternion_q1 = 0,
          attitude_quaternion_q2 = 0, attitude_quaternion_q3 = 0, attitude_quaternion_q4 = 0,
          attitude_quaternion_rollspeed = 0, attitude_quaternion_pitchspeed = 0,
          attitude_quaternion_yawspeed = 0 \<rparr>,
      mavlink_msg_command_ack_decode = \<lparr> command_ack_command = 0, command_ack_result = 0 \<rparr>,
      mavlink_msg_attitude_target_decode =
        \<lparr> attitude_target_time_boot_ms = 0, attitude_target_q = (0, 0, 0, 0),
          attitude_target_thrust = 0 \<rparr>,
      mavlink_msg_position_target_local_ned_decode =
        \<lparr> position_target_local_ned_time_boot_ms = 0, position_target_local_ned_x = 0,
          position_target_local_ned_y = 0, position_target_local_ned_z = 0 \<rparr>,
      mavlink_msg_data_transmission_handshake_decode =
        \<lparr> data_transmission_handshake_size = 0, data_transmission_handshake_width = 0,
          data_transmission_handshake_height = 0, data_transmission_handshake_packets = 0,
          data_transmission_handshake_type = 0, data_transmission_handshake_payload = 0,
          data_transmission_handshake_jpg_quality = 0 \<rparr>,
      mavlink_msg_encapsulated_data_decode =
        \<lparr> encapsulated_data_seqnr = 0, encapsulated_data_data = [] \<rparr> \<rparr>"

text \<open>
  A handshake for an image of \<open>sz\<close> bytes in \<open>n\<close> packets of \<open>pl\<close> bytes, and a data
  message with sequence number \<open>seq\<close> and the given bytes, both from system 1,
  component 100 (the camera).
\<close>

definition handshake_message :: "32 word \<Rightarrow> 16 word \<Rightarrow> 8 word \<Rightarrow> mavlink_message_t" where
  "handshake_message sz n pl =
    (mavlink_message 1 100 MAVLINK_MSG_ID_DATA_TRANSMISSION_HANDSHAKE)
      \<lparr> mavlink_msg_data_transmission_handshake_decode :=
          \<lparr> data_transmission_handshake_size = sz, data_transmission_handshake_width = 0,
            data_transmission_handshake_height = 0, data_transmission_handshake_packets = n,
            data_transmission_handshake_type = 0, data_transmission_handshake_payload = pl,
            data_transmission_handshake_jpg_quality = 0 \<rparr> \<rparr>"

definition data_message :: "16 word \<Rightarrow> 8 word list \<Rightarrow> mavlink_message_t" where
  "data_message seq bytes =
    (mavlink_message 1 100 MAVLINK_MSG_ID_ENCAPSULATED_DATA)
      \<lparr> mavlink_msg_encapsulated_data_decode :=
          \<lparr> encapsulated_data_seqnr = seq, encapsulated_data_data = bytes \<rparr> \<rparr>"


text \<open>No case outside the embedded ones: the parameter of the dispatcher in the examples.\<close>

definition no_unembedded :: "mavlink_message_t \<Rightarrow> bool \<Rightarrow> uas \<Rightarrow> uas \<times> signal list" where
  "no_unembedded message wrongComponent s = (s, [])"

text \<open>An attitude-quaternion message from system 1, component 1.\<close>

definition quaternion_message :: "real \<Rightarrow> real \<Rightarrow> real \<Rightarrow> real \<Rightarrow> mavlink_message_t" where
  "quaternion_message a b c d =
    (mavlink_message 1 1 MAVLINK_MSG_ID_ATTITUDE_QUATERNION)
      \<lparr> mavlink_msg_attitude_quaternion_decode :=
          \<lparr> attitude_quaternion_time_boot_ms = 0, attitude_quaternion_q1 = a,
            attitude_quaternion_q2 = b, attitude_quaternion_q3 = c, attitude_quaternion_q4 = d,
            attitude_quaternion_rollspeed = 0, attitude_quaternion_pitchspeed = 0,
            attitude_quaternion_yawspeed = 0 \<rparr> \<rparr>"


section \<open>Properties of the time reconciliation\<close>

lemma getUnixTime_onboard:
  assumes "time \<noteq> 0" "time < 1261440000000000"
  shows "getUnixTime env time s =
    (if onboardTimeOffset s = 0 \<or> time < lastNonNullTime s - 100
     then (groundTimeMilliseconds env,
           s\<lparr>lastNonNullTime := time,
             onboardTimeOffset := groundTimeMilliseconds env - time div 1000\<rparr>)
     else (time div 1000 + onboardTimeOffset s,
           if time > lastNonNullTime s then s\<lparr>lastNonNullTime := time\<rparr> else s))"
  using assms by (simp add: getUnixTime_def Let_def)

text \<open>
  The value \<open>getUnixTime\<close> returns does not depend on the attitude-stamped mode or on
  the time of the last attitude.
\<close>

lemma getUnixTime_attitudeStamped_irrelevant:
  "fst (getUnixTime env time (s\<lparr>attitudeStamped := b, lastAttitude := a\<rparr>))
     = fst (getUnixTime env time s)"
  by (simp add: getUnixTime_def Let_def)

text \<open>
  C1. With the attitude-stamped mode on and the last attitude at time 5, \<open>getUnixTime\<close>
  returns the reconciled time stamp, not 5: for a raw time stamp above forty years of
  microseconds the time stamp in milliseconds, for one below it the time stamp in
  milliseconds plus the offset (here the ground clock, as the offset is taken in this
  call). The assignment of \<open>lastAttitude\<close> to the result is overwritten in every branch.
\<close>

theorem getUnixTime_attitudeStamped_overwritten:
  "getUnixTime (environment_at 1500000000000000 0) 2000000000000000
       ((UAS 1)\<lparr>attitudeStamped := True, lastAttitude := 5\<rparr>)
     = (2000000000000, (UAS 1)\<lparr>attitudeStamped := True, lastAttitude := 5\<rparr>)
   \<and> getUnixTime (environment_at 1500000000000000 0) 7000
       ((UAS 1)\<lparr>attitudeStamped := True, lastAttitude := 5\<rparr>)
     = (1500000000000, (UAS 1)\<lparr>attitudeStamped := True, lastAttitude := 5,
          onboardTimeOffset := 1499999999993, lastNonNullTime := 7000\<rparr>)"
  by (simp add: getUnixTime_def environment_at_def UAS_def)

subsection \<open>Monotone time stamps\<close>


lemma unat_back:
  "unat ((l :: quint64) - 100) = (if 100 \<le> unat l then unat l - 100 else unat l + 2 ^ 64 - 100)"
  by (simp add: unat_sub_if' word_le_nat_alt)












text \<open>
  A remark on the test \<open>time < lastNonNullTime - 100\<close>: while the last accepted raw
  value is below 100 the unsigned subtraction wraps around, the test holds for every
  raw time stamp below forty years, and each such call takes the offset from the
  ground clock again and returns the ground clock. So after a last accepted value of
  4000 the samples 50, 60 and 70 recompute the offset three times.
\<close>

lemma getUnixTime_small_last:
  assumes "lastNonNullTime s < 100" "time \<noteq> 0" "time < 1261440000000000"
  shows "getUnixTime env time s =
    (groundTimeMilliseconds env,
     s\<lparr>lastNonNullTime := time,
       onboardTimeOffset := groundTimeMilliseconds env - time div 1000\<rparr>)"
proof -
  have "unat (lastNonNullTime s) < 100" using assms(1) by (simp add: word_less_nat_alt)
  moreover have "unat time < 1261440000000000" using assms(3) by (simp add: word_less_nat_alt)
  ultimately have "unat time < unat (lastNonNullTime s - 100)" by (simp add: unat_back)
  then have "time < lastNonNullTime s - 100" by (simp add: word_less_nat_alt)
  then show ?thesis using assms(2,3) by (simp add: getUnixTime_onboard)
qed

lemma getUnixTime_small_samples_example:
  "getUnixTime ((environment_at 0 0)\<lparr>groundTimeMilliseconds := 1500000000003\<rparr>) 50
        ((UAS 1)\<lparr>onboardTimeOffset := 1499999999990, lastNonNullTime := 4000\<rparr>) =
      (1500000000003, (UAS 1)\<lparr>onboardTimeOffset := 1500000000003, lastNonNullTime := 50\<rparr>)
   \<and> getUnixTime ((environment_at 0 0)\<lparr>groundTimeMilliseconds := 1500000000004\<rparr>) 60
        ((UAS 1)\<lparr>onboardTimeOffset := 1500000000003, lastNonNullTime := 50\<rparr>) =
      (1500000000004, (UAS 1)\<lparr>onboardTimeOffset := 1500000000004, lastNonNullTime := 60\<rparr>)
   \<and> getUnixTime ((environment_at 0 0)\<lparr>groundTimeMilliseconds := 1500000000005\<rparr>) 70
        ((UAS 1)\<lparr>onboardTimeOffset := 1500000000004, lastNonNullTime := 60\<rparr>) =
      (1500000000005, (UAS 1)\<lparr>onboardTimeOffset := 1500000000005, lastNonNullTime := 70\<rparr>)"
  by (simp add: getUnixTime_def)

section \<open>Properties of the connection check\<close>

lemma updateState_cases:
  "updateState env s =
    (let i = groundTimeUsecs env - lastHeartbeat s;
         unlock = (\<lambda>s. if positionLock s then s\<lparr>positionLock := False\<rparr> else s) in
     if \<not> connectionLost s \<and> i > timeoutIntervalHeartbeat env then
       (unlock (s\<lparr>connectionLost := True, receivedMode := False, connectionLossTime := i\<rparr>),
        [say (Link_lost_to_system (uasId s)) AUDIO_SEVERITY_ALERT,
         heartbeatTimeout True (i div 1000)])
     else if connectionLost s \<and> i > timeoutIntervalHeartbeat env then
       (unlock (s\<lparr>connectionLossTime := i\<rparr>), [heartbeatTimeout True (i div 1000)])
     else if connectionLost s \<and> i < timeoutIntervalHeartbeat env then
       (unlock (s\<lparr>connectionLost := False, connectionLossTime := 0\<rparr>),
        [say (Link_regained_to_system (uasId s)) AUDIO_SEVERITY_NOTICE, heartbeatTimeout False 0])
     else (unlock s, []))"
  by (auto simp: updateState_def Let_def)

text \<open>
  C4 (as amended). Let \<open>interval\<close> be the ground clock minus the time of the last
  heartbeat, as \<open>updateState\<close> computes it. While the link is not lost and the interval
  does not exceed the timeout, a check emits nothing and the link stays not lost. The
  spoken alert "link lost" is emitted once by a check exactly when that check takes the
  link from not lost to lost, and the spoken notice "link regained" and
  \<open>heartbeatTimeout(false, 0)\<close> once exactly when it takes the link from lost to not
  lost. The signal \<open>heartbeatTimeout(true, interval / 1000)\<close> is emitted once by every
  check after which the link is lost and whose interval exceeds the timeout, so again
  on every check while the link remains lost. A check emits nothing else.
\<close>

theorem updateState_signals:
  assumes "updateState env s = (s', out)"
    and "interval = groundTimeUsecs env - lastHeartbeat s"
  shows "(\<not> connectionLost s \<and> interval \<le> timeoutIntervalHeartbeat env
            \<longrightarrow> out = [] \<and> \<not> connectionLost s')
    \<and> count_list out (say (Link_lost_to_system (uasId s)) AUDIO_SEVERITY_ALERT)
        = (if \<not> connectionLost s \<and> connectionLost s' then 1 else 0)
    \<and> count_list out (say (Link_regained_to_system (uasId s)) AUDIO_SEVERITY_NOTICE)
        = (if connectionLost s \<and> \<not> connectionLost s' then 1 else 0)
    \<and> count_list out (heartbeatTimeout False 0)
        = (if connectionLost s \<and> \<not> connectionLost s' then 1 else 0)
    \<and> count_list out (heartbeatTimeout True (interval div 1000))
        = (if connectionLost s' \<and> interval > timeoutIntervalHeartbeat env then 1 else 0)
    \<and> set out \<subseteq>
        {say (Link_lost_to_system (uasId s)) AUDIO_SEVERITY_ALERT,
         say (Link_regained_to_system (uasId s)) AUDIO_SEVERITY_NOTICE,
         heartbeatTimeout False 0,
         heartbeatTimeout True (interval div 1000)}
    \<and> (connectionLost s' \<longleftrightarrow>
          (if connectionLost s then \<not> interval < timeoutIntervalHeartbeat env
           else interval > timeoutIntervalHeartbeat env))"
  using assms by (auto simp: updateState_cases Let_def split: if_splits)

theorem updateState_signals_witness:
  "snd (updateState (environment_at 400000 500000) (UAS 1)) = []
   \<and> \<not> connectionLost (fst (updateState (environment_at 400000 500000) (UAS 1)))
   \<and> connectionLost (fst (updateState (environment_at 600000 500000) (UAS 1)))
   \<and> count_list (snd (updateState (environment_at 600000 500000) (UAS 1)))
        (say (Link_lost_to_system 1) AUDIO_SEVERITY_ALERT) = 1
   \<and> count_list (snd (updateState (environment_at 600000 500000) (UAS 1)))
        (heartbeatTimeout True 600) = 1"
proof -
  let ?quiet = "updateState (environment_at 400000 500000) (UAS 1)"
  let ?lost = "updateState (environment_at 600000 500000) (UAS 1)"
  have q: "?quiet = (fst ?quiet, snd ?quiet)" and l: "?lost = (fst ?lost, snd ?lost)"
    by simp_all
  have i1: "(400000 :: quint64)
      = groundTimeUsecs (environment_at 400000 500000) - lastHeartbeat (UAS 1)"
    and i2: "(600000 :: quint64)
      = groundTimeUsecs (environment_at 600000 500000) - lastHeartbeat (UAS 1)"
    by (simp_all add: environment_at_def UAS_def)
  have c: "\<not> connectionLost (UAS 1)" "uasId (UAS 1) = 1"
    "timeoutIntervalHeartbeat (environment_at 400000 500000) = 500000"
    "timeoutIntervalHeartbeat (environment_at 600000 500000) = 500000"
    by (simp_all add: environment_at_def UAS_def)
  from updateState_signals [OF q i1] updateState_signals [OF l i2] c
  show ?thesis by simp
qed

text \<open>
  C4 as stated fails: with a timeout of 500000 microseconds and the last heartbeat at
  0, the check at 600000 signals the loss, and the check at 1100000, with the link
  still lost, emits \<open>heartbeatTimeout(true, 1100)\<close> again.
\<close>

theorem updateState_repeats_timeout:
  "updateState (environment_at 600000 500000) (UAS 1)
     = ((UAS 1)\<lparr>connectionLost := True, connectionLossTime := 600000\<rparr>,
        [say (Link_lost_to_system 1) AUDIO_SEVERITY_ALERT, heartbeatTimeout True 600])
   \<and> updateState (environment_at 1100000 500000)
        ((UAS 1)\<lparr>connectionLost := True, connectionLossTime := 600000\<rparr>)
     = ((UAS 1)\<lparr>connectionLost := True, connectionLossTime := 1100000\<rparr>,
        [heartbeatTimeout True 1100])"
  by (simp add: updateState_def environment_at_def UAS_def)

section \<open>Properties of the dispatcher\<close>

text \<open>
  A message of another system changes nothing but the component registry and emits
  nothing.
\<close>

lemma receiveMessage_other_system:
  assumes "uint (sysid message) \<noteq> uasId s"
  shows "receiveMessage env unembedded message s = (register_component message s, [])"
  using assms by (simp add: receiveMessage_def accepted_def register_component_def Let_def)

text \<open>
  C9. The object of vehicle 1 receives a heartbeat of system 2, component 200, which
  it has not seen before. The message is not handled and nothing is emitted, but the
  component registry changes: it gains the entry for component 200. The registration
  stands before the condition "only accept messages from this system".
\<close>

theorem receiveMessage_registers_other_system:
  "uint (sysid (mavlink_message 2 200 MAVLINK_MSG_ID_HEARTBEAT)) \<noteq> uasId (UAS 1)
   \<and> components (UAS 1) 200 = None
   \<and> receiveMessage (environment_at 0 0) no_unembedded
        (mavlink_message 2 200 MAVLINK_MSG_ID_HEARTBEAT) (UAS 1)
     = ((UAS 1)\<lparr>components := [200 \<mapsto> ''IMU #1'']\<rparr>, [])
   \<and> components
        (fst (receiveMessage (environment_at 0 0) no_unembedded
               (mavlink_message 2 200 MAVLINK_MSG_ID_HEARTBEAT) (UAS 1))) 200
     = Some ''IMU #1''"
  by (simp add: receiveMessage_def register_component_def accepted_def mavlink_message_def
      UAS_def componentName_def)

text \<open>So the object after the message is not the object before it.\<close>

theorem receiveMessage_registers_other_system_witness:
  "fst (receiveMessage (environment_at 0 0) no_unembedded
          (mavlink_message 2 200 MAVLINK_MSG_ID_HEARTBEAT) (UAS 1)) \<noteq> UAS 1"
proof
  assume eq: "fst (receiveMessage (environment_at 0 0) no_unembedded
          (mavlink_message 2 200 MAVLINK_MSG_ID_HEARTBEAT) (UAS 1)) = UAS 1"
  have before: "components (UAS 1) 200 = None"
    using receiveMessage_registers_other_system by blast
  have "components
        (fst (receiveMessage (environment_at 0 0) no_unembedded
               (mavlink_message 2 200 MAVLINK_MSG_ID_HEARTBEAT) (UAS 1))) 200
     = Some ''IMU #1''"
    using receiveMessage_registers_other_system by blast
  then have "components (UAS 1) 200 = Some ''IMU #1''" unfolding eq .
  with before show False by simp
qed

text \<open>
  C10. The object of vehicle 1 receives a command acknowledgment (result accepted,
  every payload byte zero) from component 1. After the text notification the case runs
  on into the attitude-target case: the attitude-thrust set point and the three set
  point values for plotting are emitted as well.
\<close>

theorem COMMAND_ACK_runs_into_ATTITUDE_TARGET:
  "receiveMessage (environment_at 1500000000000000 0) no_unembedded
        (mavlink_message 1 1 MAVLINK_MSG_ID_COMMAND_ACK) (UAS 1)
     = ((UAS 1)\<lparr>components := [1 \<mapsto> []],
                 componentID := (\<lambda>i. - 1)(MAVLINK_MSG_ID_COMMAND_ACK := 1)\<rparr>,
        [textMessageReceived 1 1 MAV_SEVERITY_INFO ''SUCCESS: Executed CMD: %1'' 0,
         attitudeThrustSetPointChanged 0 0 0 0 1500000000000,
         valueChanged 1 (Name ''roll sp'') ''rad'' 0 1500000000000,
         valueChanged 1 (Name ''pitch sp'') ''rad'' 0 1500000000000,
         valueChanged 1 (Name ''yaw sp'') ''rad'' 0 1500000000000])"
  by (simp add: receiveMessage_def register_component_def accepted_def resolve_component_def
      switch_msgid_def mavlink_message_def UAS_def componentName_def
      case_COMMAND_ACK_def case_ATTITUDE_TARGET_def getUnixTimeFromMs_def getUnixTime_def
      environment_at_def)

text \<open>So a command acknowledgment emits an attitude-thrust set point.\<close>

theorem COMMAND_ACK_runs_into_ATTITUDE_TARGET_witness:
  "attitudeThrustSetPointChanged 0 0 0 0 1500000000000
     \<in> set (snd (receiveMessage (environment_at 1500000000000000 0) no_unembedded
                   (mavlink_message 1 1 MAVLINK_MSG_ID_COMMAND_ACK) (UAS 1)))"
  using COMMAND_ACK_runs_into_ATTITUDE_TARGET by simp


section \<open>Properties of the image transfer\<close>

lemma case_ENCAPSULATED_DATA_counters:
  assumes "imagePackets s \<noteq> 0"
  shows "case_ENCAPSULATED_DATA message s =
    (let s1 = s\<lparr>imageRecBuffer :=
                 image_copy 0 (imagePayload s)
                   (uint (encapsulated_data_seqnr (mavlink_msg_encapsulated_data_decode message))
                      * imagePayload s)
                   (imageSize s)
                   (encapsulated_data_data (mavlink_msg_encapsulated_data_decode message))
                   (imageRecBuffer s)\<rparr>
     in if imagePacketsArrived s + 1 \<ge> imagePackets s
        then (s1\<lparr>imagePacketsArrived := imagePacketsArrived s + 1,
                  imagePackets := 0, imagePacketsArrived := 0\<rparr>, [imageReady])
        else (s1\<lparr>imagePacketsArrived := imagePacketsArrived s + 1\<rparr>, []))"
  using assms by (simp add: case_ENCAPSULATED_DATA_def Let_def)

lemma ENCAPSULATED_DATA_sequence_append:
  "ENCAPSULATED_DATA_sequence (xs @ ys) s =
    (case ENCAPSULATED_DATA_sequence xs s of
       (s', outs1) \<Rightarrow>
         (case ENCAPSULATED_DATA_sequence ys s' of (s'', outs2) \<Rightarrow> (s'', outs1 @ outs2)))"
  by (induction xs arbitrary: s) (auto split: prod.splits)

lemma ENCAPSULATED_DATA_sequence_incomplete:
  assumes "imagePacketsArrived s + int (length ms) < imagePackets s" "0 < imagePackets s"
  shows "snd (ENCAPSULATED_DATA_sequence ms s) = replicate (length ms) []
    \<and> imagePacketsArrived (fst (ENCAPSULATED_DATA_sequence ms s))
        = imagePacketsArrived s + int (length ms)
    \<and> imagePackets (fst (ENCAPSULATED_DATA_sequence ms s)) = imagePackets s"
  using assms
proof (induction ms arbitrary: s)
  case Nil
  then show ?case by simp
next
  case (Cons m ms)
  obtain s' out where step: "case_ENCAPSULATED_DATA m s = (s', out)"
    by (cases "case_ENCAPSULATED_DATA m s")
  have ne: "imagePackets s \<noteq> 0" using Cons.prems by simp
  have "\<not> imagePacketsArrived s + 1 \<ge> imagePackets s" using Cons.prems by simp
  then have s': "out = [] \<and> imagePacketsArrived s' = imagePacketsArrived s + 1
      \<and> imagePackets s' = imagePackets s"
    using step by (auto simp: case_ENCAPSULATED_DATA_counters [OF ne] Let_def)
  then have "imagePacketsArrived s' + int (length ms) < imagePackets s'" "0 < imagePackets s'"
    using Cons.prems by simp_all
  from Cons.IH [OF this] s' step show ?case
    by (auto split: prod.splits)
qed

lemma handshake_counters:
  "imagePackets (fst (case_DATA_TRANSMISSION_HANDSHAKE env handshake s))
     = uint (data_transmission_handshake_packets
               (mavlink_msg_data_transmission_handshake_decode handshake))"
  "imagePacketsArrived (fst (case_DATA_TRANSMISSION_HANDSHAKE env handshake s)) = 0"
  by (simp_all add: case_DATA_TRANSMISSION_HANDSHAKE_def Let_def)

text \<open>
  C6. After a handshake that announces a positive number of packets, a sequence of
  fewer data messages than announced emits nothing and counts the messages; a sequence
  of exactly the announced number emits nothing before its last message and
  \<open>imageReady\<close> at its last message, after which the announced and the arrived packet
  counts are both zero. A data message that meets an announced packet count of zero
  emits nothing and changes nothing but the arrived packet count, which becomes zero.
\<close>

theorem image_transfer_ready:
  assumes hs: "case_DATA_TRANSMISSION_HANDSHAKE env handshake s = (s1, out1)"
    and pk: "packets = data_transmission_handshake_packets
                (mavlink_msg_data_transmission_handshake_decode handshake)"
    and pos: "0 < packets"
    and run: "ENCAPSULATED_DATA_sequence ms s1 = (s2, outs)"
  shows "(length ms < unat packets \<longrightarrow>
            outs = replicate (length ms) []
            \<and> imagePacketsArrived s2 = int (length ms) \<and> imagePackets s2 = uint packets)
    \<and> (length ms = unat packets \<longrightarrow>
            outs = replicate (unat packets - 1) [] @ [[imageReady]]
            \<and> imagePacketsArrived s2 = 0 \<and> imagePackets s2 = 0)
    \<and> (imagePackets t = 0 \<longrightarrow>
            case_ENCAPSULATED_DATA message t = (t\<lparr>imagePacketsArrived := 0\<rparr>, []))"
proof -
  have N: "imagePackets s1 = uint packets" and A: "imagePacketsArrived s1 = 0"
    using handshake_counters [of env handshake s] hs pk by simp_all
  have p: "0 < uint packets" using pos by (simp add: word_less_def)
  have un: "uint packets = int (unat packets)" by simp
  have part1: "length ms < unat packets \<longrightarrow>
      outs = replicate (length ms) []
      \<and> imagePacketsArrived s2 = int (length ms) \<and> imagePackets s2 = uint packets"
  proof
    assume "length ms < unat packets"
    then have "int (length ms) < uint packets" using un by linarith
    then have "imagePacketsArrived s1 + int (length ms) < imagePackets s1"
      using N A by simp
    from ENCAPSULATED_DATA_sequence_incomplete [OF this] N A p run
    show "outs = replicate (length ms) []
      \<and> imagePacketsArrived s2 = int (length ms) \<and> imagePackets s2 = uint packets"
      by simp
  qed
  have part2: "length ms = unat packets \<longrightarrow>
      outs = replicate (unat packets - 1) [] @ [[imageReady]]
      \<and> imagePacketsArrived s2 = 0 \<and> imagePackets s2 = 0"
  proof
    assume len: "length ms = unat packets"
    have "unat packets \<noteq> 0" using p un by linarith
    then have "ms \<noteq> []" using len by auto
    then obtain xs m where ms: "ms = xs @ [m]" by (metis rev_exhaust)
    have lx: "length xs = unat packets - 1" using len ms by simp
    obtain s3 outs3 where xs_run: "ENCAPSULATED_DATA_sequence xs s1 = (s3, outs3)"
      by (cases "ENCAPSULATED_DATA_sequence xs s1")
    have lxs: "int (length xs) < uint packets" "uint packets \<le> int (length xs) + 1"
      using lx un p by linarith+
    have "imagePacketsArrived s1 + int (length xs) < imagePackets s1"
      using N A lxs by simp
    from ENCAPSULATED_DATA_sequence_incomplete [OF this] N A p xs_run
    have xs: "outs3 = replicate (length xs) []"
      "imagePacketsArrived s3 = int (length xs)" "imagePackets s3 = uint packets"
      by simp_all
    have ne: "imagePackets s3 \<noteq> 0" using xs(3) p by simp
    have full: "imagePacketsArrived s3 + 1 \<ge> imagePackets s3"
      using xs(2,3) lxs by simp
    obtain s4 out4 where last_run: "case_ENCAPSULATED_DATA m s3 = (s4, out4)"
      by (cases "case_ENCAPSULATED_DATA m s3")
    have last: "out4 = [imageReady] \<and> imagePacketsArrived s4 = 0 \<and> imagePackets s4 = 0"
      using full last_run by (auto simp: case_ENCAPSULATED_DATA_counters [OF ne] Let_def)
    have "ENCAPSULATED_DATA_sequence ms s1 = (s4, outs3 @ [out4])"
      using xs_run last_run by (simp add: ms ENCAPSULATED_DATA_sequence_append)
    then show "outs = replicate (unat packets - 1) [] @ [[imageReady]]
      \<and> imagePacketsArrived s2 = 0 \<and> imagePackets s2 = 0"
      using run xs(1) last lx by simp
  qed
  have part3: "imagePackets t = 0 \<longrightarrow>
      case_ENCAPSULATED_DATA message t = (t\<lparr>imagePacketsArrived := 0\<rparr>, [])"
    by (simp add: case_ENCAPSULATED_DATA_def Let_def)
  show ?thesis using part1 part2 part3 by blast
qed

theorem image_transfer_ready_witness:
  "snd (ENCAPSULATED_DATA_sequence [data_message 0 [1, 2, 3], data_message 1 [7, 8, 9]]
         (fst (case_DATA_TRANSMISSION_HANDSHAKE (environment_at 0 0)
                 (handshake_message 4 2 3) (UAS 1))))
     = [[], [imageReady]]
   \<and> imagePackets (fst (ENCAPSULATED_DATA_sequence
         [data_message 0 [1, 2, 3], data_message 1 [7, 8, 9]]
         (fst (case_DATA_TRANSMISSION_HANDSHAKE (environment_at 0 0)
                 (handshake_message 4 2 3) (UAS 1))))) = 0
   \<and> imagePackets (UAS 1) = 0
   \<and> case_ENCAPSULATED_DATA (data_message 1 [7, 8, 9]) (UAS 1)
       = ((UAS 1)\<lparr>imagePacketsArrived := 0\<rparr>, [])"
proof -
  let ?hs = "case_DATA_TRANSMISSION_HANDSHAKE (environment_at 0 0) (handshake_message 4 2 3) (UAS 1)"
  let ?ms = "[data_message 0 [1, 2, 3], data_message 1 [7, 8, 9]]"
  let ?run = "ENCAPSULATED_DATA_sequence ?ms (fst ?hs)"
  have h1: "?hs = (fst ?hs, snd ?hs)" by simp
  have h2: "(2 :: 16 word) = data_transmission_handshake_packets
      (mavlink_msg_data_transmission_handshake_decode (handshake_message 4 2 3))"
    by (simp add: handshake_message_def)
  have h3: "0 < (2 :: 16 word)" by simp
  have h4: "?run = (fst ?run, snd ?run)" by simp
  have h5: "imagePackets (UAS 1) = 0" by (simp add: UAS_def)
  from image_transfer_ready [OF h1 h2 h3 h4, of "UAS 1" "data_message 1 [7, 8, 9]"] h5
  show ?thesis by simp
qed

text \<open>
  C7. A handshake announces an image of 4 bytes in 2 packets of 3 bytes. The data
  message with sequence number 1 writes its bytes from position 3 on: the test
  \<open>pos <= imageSize\<close> lets the byte at position 4 through, one past the last index 3
  of an image of 4 bytes, and the buffer grows to 5 bytes.
\<close>

theorem ENCAPSULATED_DATA_writes_past_image_size:
  "case_DATA_TRANSMISSION_HANDSHAKE (environment_at 0 0) (handshake_message 4 2 3) (UAS 1)
     = ((UAS 1)\<lparr>imageSize := 4, imagePackets := 2, imagePayload := 3\<rparr>, [])
   \<and> case_ENCAPSULATED_DATA (data_message 1 [7, 8, 9])
        ((UAS 1)\<lparr>imageSize := 4, imagePackets := 2, imagePayload := 3\<rparr>)
     = ((UAS 1)\<lparr>imageSize := 4, imagePackets := 2, imagePayload := 3,
                 imageRecBuffer := [0, 0, 0, 7, 8], imagePacketsArrived := 1\<rparr>, [])"
  by (simp add: case_DATA_TRANSMISSION_HANDSHAKE_def case_ENCAPSULATED_DATA_def
      handshake_message_def data_message_def mavlink_message_def UAS_def environment_at_def
      QByteArray_assign_def data_at_def numeral_3_eq_3)

section \<open>Properties of the quaternion case\<close>

lemma attitude_quaternion_euler_locked:
  assumes "\<bar>arcsin (- attitude_quaternion_dcm attitude 2 0) - pi / 2\<bar> < 1 / 1000
         \<or> \<bar>arcsin (- attitude_quaternion_dcm attitude 2 0) + pi / 2\<bar> < 1 / 1000"
  shows "attitude_quaternion_euler attitude
       = (0, arcsin (- attitude_quaternion_dcm attitude 2 0),
          atan2 (attitude_quaternion_dcm attitude 1 2 - attitude_quaternion_dcm attitude 0 1)
                (attitude_quaternion_dcm attitude 0 2 + attitude_quaternion_dcm attitude 1 1))"
proof (cases "\<bar>arcsin (- attitude_quaternion_dcm attitude 2 0) - pi / 2\<bar> < 1 / 1000")
  case True
  then show ?thesis by (simp add: attitude_quaternion_euler_def Let_def)
next
  case False
  with assms have "\<bar>arcsin (- attitude_quaternion_dcm attitude 2 0) + pi / 2\<bar> < 1 / 1000"
    by simp
  with False show ?thesis by (simp add: attitude_quaternion_euler_def Let_def)
qed

lemma case_ATTITUDE_QUATERNION_angles:
  assumes "attitude_quaternion_euler (mavlink_msg_attitude_quaternion_decode message)
      = (phi, theta, psi)"
    and "case_ATTITUDE_QUATERNION env message False s = (s', out)"
  shows "roll s' = limitAngleToPMPIf env phi \<and> pitch s' = limitAngleToPMPIf env theta
    \<and> yaw s' = limitAngleToPMPIf env psi"
  using assms
  by (auto simp: case_ATTITUDE_QUATERNION_def Let_def setRoll_def setPitch_def setYaw_def
      split: prod.splits)

text \<open>
  C8. When the pitch \<open>theta\<close>, the arc sine of \<open>- dcm[2][0]\<close>, is within 0.001 of a
  quarter turn up or of a quarter turn down, the extraction gives roll zero and as yaw
  the arc tangent of \<open>dcm[1][2] - dcm[0][1]\<close> over \<open>dcm[0][2] + dcm[1][1]\<close>; a message
  of the owning component stores these angles, normalised, as roll and yaw.
\<close>

theorem attitude_quaternion_gimbal_lock:
  assumes "attitude = mavlink_msg_attitude_quaternion_decode message"
    and "dcm = attitude_quaternion_dcm attitude"
    and "theta = arcsin (- dcm 2 0)"
    and "\<bar>theta - pi / 2\<bar> < 1 / 1000 \<or> \<bar>theta + pi / 2\<bar> < 1 / 1000"
    and "case_ATTITUDE_QUATERNION env message False s = (s', out)"
  shows "attitude_quaternion_euler attitude
       = (0, theta, atan2 (dcm 1 2 - dcm 0 1) (dcm 0 2 + dcm 1 1))
    \<and> roll s' = limitAngleToPMPIf env 0
    \<and> yaw s' = limitAngleToPMPIf env (atan2 (dcm 1 2 - dcm 0 1) (dcm 0 2 + dcm 1 1))"
proof -
  have e: "attitude_quaternion_euler attitude
       = (0, theta, atan2 (dcm 1 2 - dcm 0 1) (dcm 0 2 + dcm 1 1))"
    using attitude_quaternion_euler_locked [of attitude] assms(2-4) by simp
  then have "attitude_quaternion_euler (mavlink_msg_attitude_quaternion_decode message)
       = (0, theta, atan2 (dcm 1 2 - dcm 0 1) (dcm 0 2 + dcm 1 1))"
    using assms(1) by simp
  from case_ATTITUDE_QUATERNION_angles [OF this assms(5)] e show ?thesis by simp
qed

lemma quaternion_message_dcm:
  "attitude_quaternion_dcm (mavlink_msg_attitude_quaternion_decode (quaternion_message a 0 c 0))
     = (\<lambda>i j. if i = 0 \<and> j = 0 then a * a - c * c
          else if i = 0 \<and> j = 1 then 0
          else if i = 0 \<and> j = 2 then 2 * (a * c)
          else if i = 1 \<and> j = 0 then 0
          else if i = 1 \<and> j = 1 then a * a + c * c
          else if i = 1 \<and> j = 2 then 0
          else if i = 2 \<and> j = 0 then - (2 * (a * c))
          else if i = 2 \<and> j = 1 then 0
          else a * a - c * c)"
  by (simp add: quaternion_message_def attitude_quaternion_dcm_def Let_def fun_eq_iff)

theorem attitude_quaternion_gimbal_lock_witness:
  "attitude_quaternion_euler
      (mavlink_msg_attitude_quaternion_decode (quaternion_message 1 0 (1 / 2) 0))
      = (0, pi / 2, 0)
   \<and> roll (fst (case_ATTITUDE_QUATERNION (environment_at 0 0)
                 (quaternion_message 1 0 (1 / 2) 0) False (UAS 1))) = 0
   \<and> attitude_quaternion_euler
      (mavlink_msg_attitude_quaternion_decode (quaternion_message 1 0 (- 1 / 2) 0))
      = (0, - (pi / 2), 0)
   \<and> roll (fst (case_ATTITUDE_QUATERNION (environment_at 0 0)
                 (quaternion_message 1 0 (- 1 / 2) 0) False (UAS 1))) = 0"
proof -
  let ?up = "quaternion_message 1 0 (1 / 2) 0"
  let ?down = "quaternion_message 1 0 (- 1 / 2) 0"
  let ?cu = "case_ATTITUDE_QUATERNION (environment_at 0 0) ?up False (UAS 1)"
  let ?cd = "case_ATTITUDE_QUATERNION (environment_at 0 0) ?down False (UAS 1)"
  have up: "\<bar>pi / 2 - pi / 2\<bar> < (1 :: real) / 1000 \<or> \<bar>pi / 2 + pi / 2\<bar> < (1 :: real) / 1000"
    by simp
  have down: "\<bar>- (pi / 2) - pi / 2\<bar> < (1 :: real) / 1000
      \<or> \<bar>- (pi / 2) + pi / 2\<bar> < (1 :: real) / 1000"
    by simp
  have tu: "pi / 2 = arcsin (- attitude_quaternion_dcm
      (mavlink_msg_attitude_quaternion_decode ?up) 2 0)"
    by (simp add: quaternion_message_dcm)
  have td: "- (pi / 2) = arcsin (- attitude_quaternion_dcm
      (mavlink_msg_attitude_quaternion_decode ?down) 2 0)"
    by (simp add: quaternion_message_dcm)
  have cu: "?cu = (fst ?cu, snd ?cu)" and cd: "?cd = (fst ?cd, snd ?cd)" by simp_all
  have lim: "limitAngleToPMPIf (environment_at 0 0) 0 = 0" by (simp add: environment_at_def)
  from attitude_quaternion_gimbal_lock [OF refl refl tu up cu]
       attitude_quaternion_gimbal_lock [OF refl refl td down cd] lim
  show ?thesis by (simp add: quaternion_message_dcm atan2_def)
qed

section \<open>Properties of the battery tick alert\<close>








section \<open>Properties of the ownership of message types\<close>













end
